theory Spec2Isabelle
  imports Main
begin

section \<open>Wire messages\<close>

text \<open>
  Payloads are arbitrary JSON values (\<^verbatim>\<open>payload: any\<close> in \<^verbatim>\<open>WebSocketMessage\<close>).
  Numbers are kept as integers: the code only ever tests a payload value for truthiness.
\<close>

datatype json =
    JNull
  | JBool bool
  | JNum int
  | JStr string
  | JArr "json list"
  | JObj "(string \<times> json) list"

text \<open>The interface \<^verbatim>\<open>WebSocketMessage\<close> of the core package's types.\<close>

record WebSocketMessage =
  type :: string
  payload :: json
  requestId :: string
  timestamp :: nat

text \<open>
  What \<^verbatim>\<open>JSON.parse\<close> makes of an incoming frame: it throws (the text of the
  exception is kept), or it yields a message.
\<close>

datatype frame = Unparseable string | Parsed WebSocketMessage

section \<open>The server: \<^verbatim>\<open>packages/core/src/server.ts\<close>\<close>

text \<open>A JavaScript \<^verbatim>\<open>Error\<close>: its message and the stack text the engine attached.\<close>

record js_error =
  message :: string
  stack :: string

text \<open>
  A call of the console: \<^verbatim>\<open>console.log(text)\<close>, or
  \<^verbatim>\<open>console.error(text, error)\<close> with the \<^verbatim>\<open>Error\<close> object it was handed (the
  console prints the object after the text).
\<close>

datatype log_entry = Log string | LogError string js_error

text \<open>
  One connection as the server sees it: the frames handed to \<^verbatim>\<open>ws.send\<close> (oldest
  first) and the calls of the console. \<^verbatim>\<open>ws.send\<close> is called synchronously
  inside the socket's own message event, where the socket is open, so it is modelled as
  an append that does not throw.
\<close>

record connection =
  sent :: "WebSocketMessage list"
  console :: "log_entry list"

definition ws_send :: "WebSocketMessage \<Rightarrow> connection \<Rightarrow> connection" where
  "ws_send m c = c\<lparr>sent := sent c @ [m]\<rparr>"

definition console_log :: "string \<Rightarrow> connection \<Rightarrow> connection" where
  "console_log l c = c\<lparr>console := console c @ [Log l]\<rparr>"

definition console_error :: "string \<Rightarrow> js_error \<Rightarrow> connection \<Rightarrow> connection" where
  "console_error l err c = c\<lparr>console := console c @ [LogError l err]\<rparr>"

text \<open>\<^verbatim>\<open>sendResponse\<close>: the first argument is the value of \<^verbatim>\<open>Date.now()\<close>.\<close>

definition sendResponse :: "nat \<Rightarrow> connection \<Rightarrow> string \<Rightarrow> json \<Rightarrow> connection" where
  "sendResponse now c rid p =
     ws_send \<lparr>type = ''component-selected'', payload = p, requestId = rid, timestamp = now\<rparr> c"

definition sendError :: "nat \<Rightarrow> connection \<Rightarrow> string \<Rightarrow> js_error \<Rightarrow> connection" where
  "sendError now c rid err =
     ws_send \<lparr>type = ''error'',
              payload = JObj [(''message'', JStr (message err)), (''stack'', JStr (stack err))],
              requestId = rid, timestamp = now\<rparr> c"

definition handleComponentSelected :: "nat \<Rightarrow> json \<Rightarrow> connection \<Rightarrow> string \<Rightarrow> connection" where
  "handleComponentSelected now p c rid =
     sendResponse now c rid (JObj [(''status'', JStr ''acknowledged'')])"

definition handleOpenEditor :: "nat \<Rightarrow> json \<Rightarrow> connection \<Rightarrow> string \<Rightarrow> connection" where
  "handleOpenEditor now p c rid =
     sendResponse now c rid (JObj [(''status'', JStr ''pending'')])"

definition handleGenerateTestIds :: "nat \<Rightarrow> json \<Rightarrow> connection \<Rightarrow> string \<Rightarrow> connection" where
  "handleGenerateTestIds now p c rid =
     sendResponse now c rid (JObj [(''status'', JStr ''pending'')])"

definition handleInsertCode :: "nat \<Rightarrow> json \<Rightarrow> connection \<Rightarrow> string \<Rightarrow> connection" where
  "handleInsertCode now p c rid =
     sendResponse now c rid (JObj [(''status'', JStr ''pending'')])"

text \<open>
  The \<^verbatim>\<open>switch\<close> of \<^verbatim>\<open>routeMessage\<close>: \<open>Inl\<close> is the \<^verbatim>\<open>Error\<close> thrown by the
  default branch. The second argument is the stack text of an error created here.
\<close>

definition dispatch :: "nat \<Rightarrow> string \<Rightarrow> WebSocketMessage \<Rightarrow> connection \<Rightarrow> js_error + connection" where
  "dispatch now stk m c =
     (if type m = ''component-selected'' then Inr (handleComponentSelected now (payload m) c (requestId m))
      else if type m = ''open-editor'' then Inr (handleOpenEditor now (payload m) c (requestId m))
      else if type m = ''generate-testids'' then Inr (handleGenerateTestIds now (payload m) c (requestId m))
      else if type m = ''insert-code'' then Inr (handleInsertCode now (payload m) c (requestId m))
      else Inl \<lparr>message = ''Unknown message type: '' @ type m, stack = stk\<rparr>)"

text \<open>\<^verbatim>\<open>routeMessage\<close>: the log line, then the \<^verbatim>\<open>try\<close> around the switch.\<close>

definition routeMessage :: "nat \<Rightarrow> string \<Rightarrow> WebSocketMessage \<Rightarrow> connection \<Rightarrow> connection" where
  "routeMessage now stk m c =
     (let c1 = console_log (''[Telescope Server] Received message: '' @ type m) c in
      case dispatch now stk m c1 of
        Inr c2 \<Rightarrow> c2
      | Inl err \<Rightarrow> sendError now c1 (requestId m) err)"

text \<open>
  The \<^verbatim>\<open>message\<close> listener installed by \<^verbatim>\<open>handleConnection\<close>. A frame that
  \<^verbatim>\<open>JSON.parse\<close> rejects lands in the \<^verbatim>\<open>catch\<close>: the error object is
  handed to \<^verbatim>\<open>console.error\<close> and \<^verbatim>\<open>sendError(ws, 'unknown', error)\<close> is called.
\<close>

definition onMessage :: "nat \<Rightarrow> string \<Rightarrow> frame \<Rightarrow> connection \<Rightarrow> connection" where
  "onMessage now stk fr c =
     (case fr of
        Parsed m \<Rightarrow> routeMessage now stk m c
      | Unparseable txt \<Rightarrow>
          (let error = \<lparr>message = txt, stack = stk\<rparr> in
           sendError now
             (console_error ''[Telescope Server] Error processing message:'' error c)
             ''unknown'' error))"

definition recognized :: "string \<Rightarrow> bool" where
  "recognized k = (k \<in> {''component-selected'', ''open-editor'', ''generate-testids'', ''insert-code''})"


section \<open>The client: \<^verbatim>\<open>TelescopeClient\<close> in \<^verbatim>\<open>packages/browser-runtime\<close>\<close>

text \<open>The four values of \<^verbatim>\<open>WebSocket.readyState\<close>.\<close>

datatype ready_state = CONNECTING | OPEN | CLOSING | CLOSED

text \<open>
  The errors a promise of the client is rejected with:
  \<^item> \<open>RequestTimeout\<close> is \<^verbatim>\<open>new Error('Request timeout')\<close>;
  \<^item> \<open>ServerError v\<close> is \<^verbatim>\<open>new Error(message.payload.message || 'Server error')\<close>, with
    \<open>v\<close> the value handed to the constructor;
  \<^item> \<open>SendFailed\<close> is \<^verbatim>\<open>new Error(`Failed to send message: ...`)\<close>;
  \<^item> \<open>ConnectionTimeout\<close> is \<^verbatim>\<open>new Error('Connection timeout after 5 seconds')\<close>;
  \<^item> \<open>ConstructorFailed\<close> is whatever \<^verbatim>\<open>new WebSocket(url)\<close> threw.
\<close>

datatype client_error =
    RequestTimeout
  | ServerError json
  | SendFailed
  | ConnectionTimeout
  | ConstructorFailed

datatype outcome = Resolved json | Rejected client_error

text \<open>
  The callbacks handed to \<^verbatim>\<open>setTimeout\<close>: the connection timeout of the attempt
  that created socket \<open>k\<close>, the request timeout of request id \<open>rid\<close> whose closure
  holds the \<^verbatim>\<open>reject\<close> of promise \<open>f\<close>, and the delayed \<^verbatim>\<open>connect()\<close> of
  \<^verbatim>\<open>reconnect\<close>.
\<close>

datatype timer = ConnectTimer nat | RequestTimer string nat | ReconnectTimer

text \<open>
  The private fields of the class, followed by what the client's environment holds:
  every \<^verbatim>\<open>WebSocket\<close> object created so far (numbered in creation order) with its
  ready state, the frames accepted by \<^verbatim>\<open>ws.send\<close>, the promises returned by
  \<^verbatim>\<open>send()\<close> (numbered in creation order; \<open>settled\<close> has no entry while a promise is
  pending; \<open>requestIdOf\<close> is the id \<^verbatim>\<open>send()\<close> generated for it), the promises created
  by \<^verbatim>\<open>connect()\<close> (named by the socket of the attempt), the \<^verbatim>\<open>setTimeout\<close> calls
  with their delay in milliseconds, and the calls made to registered listeners.
  A listener is named by a number.
\<close>

record TelescopeClient =
  ws :: "nat option"
  messageQueue :: "WebSocketMessage list"
  pendingRequests :: "string \<rightharpoonup> nat"
  reconnectAttempts :: nat
  isConnecting :: bool
  messageHandlers :: "string \<rightharpoonup> nat"
  readyState :: "nat \<rightharpoonup> ready_state"
  nsockets :: nat
  transmitted :: "(nat \<times> WebSocketMessage) list"
  settled :: "nat \<rightharpoonup> outcome"
  requestIdOf :: "nat \<rightharpoonup> string"
  nfutures :: nat
  connectSettled :: "nat \<rightharpoonup> outcome"
  timers :: "(nat \<times> timer) list"
  invoked :: "(nat \<times> json) list"

definition maxReconnectAttempts :: nat where
  "maxReconnectAttempts = 5"

definition reconnectDelay :: nat where
  "reconnectDelay = 1000"

text \<open>A freshly constructed client.\<close>

definition new_client :: TelescopeClient where
  "new_client =
     \<lparr>ws = None, messageQueue = [], pendingRequests = Map.empty, reconnectAttempts = 0,
      isConnecting = False, messageHandlers = Map.empty, readyState = Map.empty,
      nsockets = 0, transmitted = [], settled = Map.empty, requestIdOf = Map.empty,
      nfutures = 0, connectSettled = Map.empty, timers = [], invoked = []\<rparr>"

text \<open>\<^verbatim>\<open>this.ws && this.ws.readyState === WebSocket.OPEN\<close>, also \<^verbatim>\<open>isConnected()\<close>.\<close>

definition isConnected :: "TelescopeClient \<Rightarrow> bool" where
  "isConnected s = (case ws s of None \<Rightarrow> False | Some k \<Rightarrow> readyState s k = Some OPEN)"

text \<open>
  Calling \<^verbatim>\<open>resolve\<close> or \<^verbatim>\<open>reject\<close> of a promise: only the first call settles it.
\<close>

definition settle :: "nat \<Rightarrow> outcome \<Rightarrow> TelescopeClient \<Rightarrow> TelescopeClient" where
  "settle f out s =
     (case settled s f of
        None \<Rightarrow> s\<lparr>settled := (settled s)(f \<mapsto> out)\<rparr>
      | Some _ \<Rightarrow> s)"

definition settleConnect :: "nat \<Rightarrow> outcome \<Rightarrow> TelescopeClient \<Rightarrow> TelescopeClient" where
  "settleConnect k out s =
     (case connectSettled s k of
        None \<Rightarrow> s\<lparr>connectSettled := (connectSettled s)(k \<mapsto> out)\<rparr>
      | Some _ \<Rightarrow> s)"

text \<open>
  What a call of \<^verbatim>\<open>connect()\<close> hands back: the \<^verbatim>\<open>async\<close> function returned at once
  (its promise is already resolved), or the promise waits for socket \<open>k\<close> to open or for
  the connection timeout, or the constructor threw and the promise is already rejected.
\<close>

datatype connect_result = Returned | Awaiting nat | Threw

text \<open>
  \<^verbatim>\<open>connect()\<close>. The flag says whether \<^verbatim>\<open>new WebSocket(this.url)\<close> returns a
  socket (\<open>True\<close>) or throws.
\<close>

definition connect :: "bool \<Rightarrow> TelescopeClient \<Rightarrow> TelescopeClient \<times> connect_result" where
  "connect ctor_ok s =
     (if isConnected s then (s, Returned)
      else if isConnecting s then (s, Returned)
      else if ctor_ok then
        (let k = nsockets s in
         (s\<lparr>isConnecting := True, ws := Some k,
            readyState := (readyState s)(k \<mapsto> CONNECTING), nsockets := Suc k,
            timers := timers s @ [(5000, ConnectTimer k)]\<rparr>,
          Awaiting k))
      else (s\<lparr>isConnecting := False\<rparr>, Threw))"

text \<open>
  \<^verbatim>\<open>reconnect()\<close>: nothing once the counter has reached the maximum; otherwise the
  delay is computed from the counter, the counter is incremented and the delayed
  \<^verbatim>\<open>connect()\<close> is scheduled.
\<close>

definition reconnect :: "TelescopeClient \<Rightarrow> TelescopeClient" where
  "reconnect s =
     (if reconnectAttempts s \<ge> maxReconnectAttempts then s
      else
        (let delay = reconnectDelay * 2 ^ reconnectAttempts s in
         s\<lparr>reconnectAttempts := Suc (reconnectAttempts s),
           timers := timers s @ [(delay, ReconnectTimer)]\<rparr>))"

text \<open>
  The \<^verbatim>\<open>while\<close> loop of \<^verbatim>\<open>flushMessageQueue\<close> on socket \<open>k\<close>: the head of the
  queue is shifted and sent; when \<^verbatim>\<open>this.ws.send(JSON.stringify(message))\<close> throws, the
  message is put back at the head and the loop stops. \<open>tx_ok m\<close> says that sending
  \<open>m\<close> does not throw (\<^verbatim>\<open>JSON.stringify\<close> throws on a payload with a cycle or a
  BigInt). The result is the queue left over and the frames sent.
\<close>

fun flush_loop ::
  "(WebSocketMessage \<Rightarrow> bool) \<Rightarrow> nat \<Rightarrow> WebSocketMessage list \<Rightarrow> (nat \<times> WebSocketMessage) list
     \<Rightarrow> WebSocketMessage list \<times> (nat \<times> WebSocketMessage) list" where
  "flush_loop tx_ok k [] out = ([], out)"
| "flush_loop tx_ok k (m # q) out =
     (if tx_ok m then flush_loop tx_ok k q (out @ [(k, m)]) else (m # q, out))"

definition flushMessageQueue :: "(WebSocketMessage \<Rightarrow> bool) \<Rightarrow> TelescopeClient \<Rightarrow> TelescopeClient" where
  "flushMessageQueue tx_ok s =
     (case ws s of
        None \<Rightarrow> s
      | Some k \<Rightarrow>
          if readyState s k \<noteq> Some OPEN then s
          else
            (let (q, out) = flush_loop tx_ok k (messageQueue s) (transmitted s) in
             s\<lparr>messageQueue := q, transmitted := out\<rparr>))"


text \<open>
  The argument of \<^verbatim>\<open>send()\<close>: a message without \<^verbatim>\<open>requestId\<close> and
  \<^verbatim>\<open>timestamp\<close>.
\<close>

record request =
  rtype :: string
  rpayload :: json

text \<open>
  Both branches of \<^verbatim>\<open>send()\<close> create the promise the same way: the entry
  \<^verbatim>\<open>pendingRequests.set(requestId, {resolve, reject})\<close> and the ten second timer.
\<close>

definition register :: "string \<Rightarrow> nat \<Rightarrow> TelescopeClient \<Rightarrow> TelescopeClient" where
  "register rid f s =
     s\<lparr>pendingRequests := (pendingRequests s)(rid \<mapsto> f),
       requestIdOf := (requestIdOf s)(f \<mapsto> rid),
       nfutures := Suc f,
       timers := timers s @ [(10000, RequestTimer rid f)]\<rparr>"

text \<open>
  The message \<^verbatim>\<open>send()\<close> builds from its argument, the generated id and the time.
\<close>

definition fullMessage :: "request \<Rightarrow> string \<Rightarrow> nat \<Rightarrow> WebSocketMessage" where
  "fullMessage req rid now =
     \<lparr>type = rtype req, payload = rpayload req, requestId = rid, timestamp = now\<rparr>"

text \<open>
  \<^verbatim>\<open>send(message)\<close>. \<open>rid\<close> is the value of \<^verbatim>\<open>generateRequestId()\<close>, \<open>now\<close> of
  \<^verbatim>\<open>Date.now()\<close>; \<open>ctor_ok\<close> and \<open>tx_ok\<close> are as in \<open>connect\<close> and
  \<open>flush_loop\<close>. The result is the new state and the promise returned. When the
  immediate \<^verbatim>\<open>ws.send\<close> throws, the promise is rejected and nothing is registered.
\<close>

definition send ::
  "string \<Rightarrow> nat \<Rightarrow> bool \<Rightarrow> (WebSocketMessage \<Rightarrow> bool) \<Rightarrow> request \<Rightarrow> TelescopeClient
     \<Rightarrow> TelescopeClient \<times> nat" where
  "send rid now ctor_ok tx_ok req s =
     (let f = nfutures s;
          queued = register rid f
            (fst (connect ctor_ok (s\<lparr>messageQueue := messageQueue s @ [fullMessage req rid now]\<rparr>)))
      in case ws s of
           None \<Rightarrow> (queued, f)
         | Some k \<Rightarrow>
             if readyState s k \<noteq> Some OPEN then (queued, f)
             else if tx_ok (fullMessage req rid now) then
               (register rid f (s\<lparr>transmitted := transmitted s @ [(k, fullMessage req rid now)]\<rparr>), f)
             else
               (settle f (Rejected SendFailed)
                  (s\<lparr>requestIdOf := (requestIdOf s)(f \<mapsto> rid), nfutures := Suc f\<rparr>), f))"

text \<open>JavaScript truthiness of a JSON value.\<close>

fun truthy :: "json \<Rightarrow> bool" where
  "truthy JNull = False"
| "truthy (JBool b) = b"
| "truthy (JNum n) = (n \<noteq> 0)"
| "truthy (JStr t) = (t \<noteq> [])"
| "truthy (JArr _) = True"
| "truthy (JObj _) = True"

text \<open>
  \<^verbatim>\<open>message.payload.message || 'Server error'\<close>: \<open>None\<close> is the \<^verbatim>\<open>TypeError\<close> of
  reading a property of \<^verbatim>\<open>null\<close>; a value that is not an object has no such property.
  (The keys of a parsed object are distinct.)
\<close>

fun error_argument :: "json \<Rightarrow> json option" where
  "error_argument JNull = None"
| "error_argument (JObj kvs) =
     (case map_of kvs ''message'' of
        None \<Rightarrow> Some (JStr ''Server error'')
      | Some v \<Rightarrow> if truthy v then Some v else Some (JStr ''Server error''))"
| "error_argument _ = Some (JStr ''Server error'')"

text \<open>
  \<^verbatim>\<open>handleMessage(event)\<close>. Every exception is caught and logged by the surrounding
  \<^verbatim>\<open>try\<close>: a frame that does not parse leaves the state as it is, and so does the
  \<^verbatim>\<open>TypeError\<close> of an error response without payload, after the entry was deleted.
\<close>

definition handleMessage :: "frame \<Rightarrow> TelescopeClient \<Rightarrow> TelescopeClient" where
  "handleMessage fr s =
     (case fr of
        Unparseable _ \<Rightarrow> s
      | Parsed m \<Rightarrow>
          (case (if requestId m \<noteq> [] then pendingRequests s (requestId m) else None) of
             Some f \<Rightarrow>
               (let s1 = s\<lparr>pendingRequests := (pendingRequests s)(requestId m := None)\<rparr> in
                if type m = ''error'' then
                  (case error_argument (payload m) of
                     None \<Rightarrow> s1
                   | Some v \<Rightarrow> settle f (Rejected (ServerError v)) s1)
                else settle f (Resolved (payload m)) s1)
           | None \<Rightarrow>
               (case messageHandlers s (type m) of
                  None \<Rightarrow> s
                | Some h \<Rightarrow> s\<lparr>invoked := invoked s @ [(h, payload m)]\<rparr>)))"

definition on :: "string \<Rightarrow> nat \<Rightarrow> TelescopeClient \<Rightarrow> TelescopeClient" where
  "on messageType handler s = s\<lparr>messageHandlers := (messageHandlers s)(messageType \<mapsto> handler)\<rparr>"

definition off :: "string \<Rightarrow> TelescopeClient \<Rightarrow> TelescopeClient" where
  "off messageType s = s\<lparr>messageHandlers := (messageHandlers s)(messageType := None)\<rparr>"

text \<open>
  \<^verbatim>\<open>WebSocket.close()\<close> on socket \<open>k\<close>: a socket that is not yet closed starts
  closing; its \<^verbatim>\<open>close\<close> event comes later.
\<close>

definition ws_close :: "nat \<Rightarrow> TelescopeClient \<Rightarrow> TelescopeClient" where
  "ws_close k s =
     (case readyState s k of
        Some CLOSED \<Rightarrow> s
      | _ \<Rightarrow> s\<lparr>readyState := (readyState s)(k \<mapsto> CLOSING)\<rparr>)"

text \<open>\<^verbatim>\<open>disconnect()\<close>.\<close>

definition disconnect :: "TelescopeClient \<Rightarrow> TelescopeClient" where
  "disconnect s =
     (let s1 = (case ws s of None \<Rightarrow> s | Some k \<Rightarrow> (ws_close k s)\<lparr>ws := None\<rparr>)
      in s1\<lparr>messageQueue := [], pendingRequests := Map.empty, reconnectAttempts := 0\<rparr>)"

text \<open>
  The handlers \<^verbatim>\<open>connect()\<close> installs on the socket \<open>k\<close> it creates. \<open>onopen\<close>
  ends with the \<^verbatim>\<open>resolve()\<close> of that call's promise.
\<close>

definition onopen :: "(WebSocketMessage \<Rightarrow> bool) \<Rightarrow> nat \<Rightarrow> TelescopeClient \<Rightarrow> TelescopeClient" where
  "onopen tx_ok k s =
     settleConnect k (Resolved JNull)
       (flushMessageQueue tx_ok (s\<lparr>isConnecting := False, reconnectAttempts := 0\<rparr>))"

definition onerror :: "TelescopeClient \<Rightarrow> TelescopeClient" where
  "onerror s = s\<lparr>isConnecting := False\<rparr>"

definition onclose :: "TelescopeClient \<Rightarrow> TelescopeClient" where
  "onclose s = reconnect (s\<lparr>isConnecting := False, ws := None\<rparr>)"

text \<open>The timer callbacks. The flag of \<open>ReconnectTimer\<close> is the one of \<open>connect\<close>.\<close>

fun fire :: "bool \<Rightarrow> timer \<Rightarrow> TelescopeClient \<Rightarrow> TelescopeClient" where
  "fire ctor_ok (ConnectTimer k) s =
     (if isConnecting s
      then settleConnect k (Rejected ConnectionTimeout) (s\<lparr>isConnecting := False\<rparr>)
      else s)"
| "fire ctor_ok (RequestTimer rid f) s =
     (case pendingRequests s rid of
        None \<Rightarrow> s
      | Some _ \<Rightarrow>
          settle f (Rejected RequestTimeout)
            (s\<lparr>pendingRequests := (pendingRequests s)(rid := None)\<rparr>))"
| "fire ctor_ok ReconnectTimer s = fst (connect ctor_ok s)"

text \<open>
  Everything that can happen to a client: the calls of its public methods, the events
  of the sockets it created (the browser changes the ready state, then runs the
  handler), and a scheduled timer running out. An event that cannot occur in the state
  (a socket opening twice, a timer that was never set) leaves it unchanged.
\<close>

datatype event =
    Connect bool
  | Send string nat bool "WebSocketMessage \<Rightarrow> bool" request
  | On string nat
  | Off string
  | Disconnect
  | SocketOpen nat "WebSocketMessage \<Rightarrow> bool"
  | SocketMessage nat frame
  | SocketError nat
  | SocketClose nat
  | TimerFires nat timer bool

fun step :: "event \<Rightarrow> TelescopeClient \<Rightarrow> TelescopeClient" where
  "step (Connect ctor_ok) s = fst (connect ctor_ok s)"
| "step (Send rid now ctor_ok tx_ok req) s = fst (send rid now ctor_ok tx_ok req s)"
| "step (On t h) s = on t h s"
| "step (Off t) s = off t s"
| "step Disconnect s = disconnect s"
| "step (SocketOpen k tx_ok) s =
     (if readyState s k = Some CONNECTING
      then onopen tx_ok k (s\<lparr>readyState := (readyState s)(k \<mapsto> OPEN)\<rparr>) else s)"
| "step (SocketMessage k fr) s =
     (if readyState s k = Some OPEN then handleMessage fr s else s)"
| "step (SocketError k) s = (if k < nsockets s then onerror s else s)"
| "step (SocketClose k) s =
     (if readyState s k \<in> {Some CONNECTING, Some OPEN, Some CLOSING}
      then onclose (s\<lparr>readyState := (readyState s)(k \<mapsto> CLOSED)\<rparr>) else s)"
| "step (TimerFires d t ctor_ok) s =
     (if (d, t) \<in> set (timers s)
      then fire ctor_ok t (s\<lparr>timers := remove1 (d, t) (timers s)\<rparr>) else s)"

fun run :: "event list \<Rightarrow> TelescopeClient \<Rightarrow> TelescopeClient" where
  "run [] s = s"
| "run (e # es) s = run es (step e s)"


section \<open>The start command: \<^verbatim>\<open>packages/cli/src/commands/start.ts\<close>\<close>

text \<open>
  What the command line tools share: the content of \<^verbatim>\<open>.hubble.pid\<close> in the working
  directory (the decimal text of a process id, kept as the number), the processes that
  are alive, the child processes launched so far, and the process in which a server
  created by the command listens.
\<close>

record system =
  pidFile :: "nat option"
  alive :: "nat set"
  spawned :: "nat list"
  serverProcess :: "nat option"

text \<open>
  The exceptions \<^verbatim>\<open>startCommand\<close> rethrows: the one of \<^verbatim>\<open>configManager.load\<close>
  (validation), the one of \<^verbatim>\<open>server.start()\<close> (the listener's error event) and
  the one of \<^verbatim>\<open>fs.writeFileSync\<close>.
\<close>

datatype start_error = ConfigError | ServerStartError | PidWriteError

text \<open>
  \<^verbatim>\<open>startCommand(cwd)\<close>, run by process \<open>pid\<close>, up to the point where it waits
  forever on \<^verbatim>\<open>new Promise(() => {})\<close>. The flags say whether loading the
  configuration, starting the listener and writing the file succeed. The server object
  is created and started inside the calling process; the file is written with
  \<^verbatim>\<open>process.pid\<close>.
\<close>

definition startCommand :: "nat \<Rightarrow> bool \<Rightarrow> bool \<Rightarrow> bool \<Rightarrow> system \<Rightarrow> start_error + system" where
  "startCommand pid load_ok listen_ok write_ok sys =
     (if \<not> load_ok then Inl ConfigError
      else if \<not> listen_ok then Inl ServerStartError
      else if \<not> write_ok then Inl PidWriteError
      else Inr (sys\<lparr>serverProcess := Some pid, pidFile := Some pid\<rparr>))"

section \<open>Notions used by the properties\<close>

text \<open>
  The bookkeeping of the promises is consistent: an entry of the table under id \<open>r\<close>
  holds the callbacks of a promise that \<^verbatim>\<open>send()\<close> created with id \<open>r\<close>, and a
  promise not yet created is neither settled nor has an id.
\<close>

definition client_inv :: "TelescopeClient \<Rightarrow> bool" where
  "client_inv s =
     ((\<forall>r f. pendingRequests s r = Some f \<longrightarrow> requestIdOf s f = Some r)
      \<and> (\<forall>d r f. (d, RequestTimer r f) \<in> set (timers s) \<longrightarrow> requestIdOf s f = Some r)
      \<and> (\<forall>f. nfutures s \<le> f \<longrightarrow> settled s f = None \<and> requestIdOf s f = None))"

text \<open>
  An event that leaves the request with id \<open>rid\<close> waiting for its own timer: it is
  not a response carrying that id, not \<^verbatim>\<open>disconnect()\<close>, and not a request timer for
  that id running out.
\<close>

fun quiet :: "string \<Rightarrow> event \<Rightarrow> bool" where
  "quiet rid (SocketMessage k (Parsed m)) = (requestId m \<noteq> rid)"
| "quiet rid Disconnect = False"
| "quiet rid (TimerFires d (RequestTimer r f) ctor_ok) = (r \<noteq> rid)"
| "quiet rid _ = True"



text \<open>An outcome that carries what a response of the server delivered.\<close>

fun from_response :: "outcome \<Rightarrow> bool" where
  "from_response (Resolved _) = True"
| "from_response (Rejected (ServerError _)) = True"
| "from_response (Rejected _) = False"

text \<open>
  The outcome \<^verbatim>\<open>handleMessage\<close> derives from a response: a rejection with the
  response's error for kind \<^verbatim>\<open>error\<close>, its payload otherwise.
\<close>

definition answers :: "WebSocketMessage \<Rightarrow> outcome \<Rightarrow> bool" where
  "answers m out =
     (if type m = ''error''
      then (case error_argument (payload m) of
              None \<Rightarrow> False
            | Some v \<Rightarrow> out = Rejected (ServerError v))
      else out = Resolved (payload m))"

section \<open>Example runs\<close>

text \<open>Two requests, and two responses of the server that arrive in the opposite order.\<close>

definition reqA :: request where
  "reqA = \<lparr>rtype = ''open-editor'', rpayload = JStr ''a''\<rparr>"

definition reqB :: request where
  "reqB = \<lparr>rtype = ''open-editor'', rpayload = JStr ''b''\<rparr>"

definition always :: "WebSocketMessage \<Rightarrow> bool" where
  "always m = True"

definition two_in_flight :: "event list" where
  "two_in_flight =
     [Connect True, SocketOpen 0 always,
      Send ''r1'' 1 True always reqA,
      Send ''r2'' 2 True always reqB,
      SocketMessage 0 (Parsed \<lparr>type = ''component-selected'', payload = JStr ''two'',
                               requestId = ''r2'', timestamp = 3\<rparr>),
      SocketMessage 0 (Parsed \<lparr>type = ''component-selected'', payload = JStr ''one'',
                               requestId = ''r1'', timestamp = 4\<rparr>)]"

text \<open>A client with two requests queued while its first socket is still connecting.\<close>

definition two_queued :: TelescopeClient where
  "two_queued = run [Send ''r1'' 1 True always reqA, Send ''r2'' 2 True always reqB] new_client"

text \<open>
  A request is queued, the socket opens but sending the queued message throws, and a
  second request is issued on the open socket.
\<close>

definition stuck_queue :: "event list" where
  "stuck_queue =
     [Send ''r1'' 1 True always reqA,
      SocketOpen 0 (\<lambda>m. requestId m \<noteq> ''r1''),
      Send ''r2'' 2 True always reqB]"

text \<open>A connected client, and the same client with one request in flight.\<close>

definition connected_client :: TelescopeClient where
  "connected_client = run [Connect True, SocketOpen 0 always] new_client"

definition in_flight :: TelescopeClient where
  "in_flight = fst (send ''r1'' 5 True always reqA connected_client)"

text \<open>Two late responses: one with another id, one with the id \<open>r1\<close>.\<close>

definition late_other :: WebSocketMessage where
  "late_other = \<lparr>type = ''component-selected'', payload = JNull, requestId = ''zz'', timestamp = 9\<rparr>"

definition late_own :: WebSocketMessage where
  "late_own = \<lparr>type = ''component-selected'', payload = JStr ''late'', requestId = ''r1'', timestamp = 9\<rparr>"



text \<open>A request is queued, the client is disconnected, and the request's timer runs out.\<close>

definition abandoned :: "event list" where
  "abandoned =
     [Send ''r1'' 1 True always reqA, Disconnect,
      TimerFires 10000 (RequestTimer ''r1'' 0) True]"


text \<open>A server whose pid file names a live process.\<close>

definition live_record :: system where
  "live_record = \<lparr>pidFile = Some 42, alive = {42}, spawned = [], serverProcess = None\<rparr>"

section \<open>The server's responses\<close>

text \<open>
  C5. A message whose kind is none of the four the server routes is answered with one
  frame of kind \<^verbatim>\<open>error\<close> that carries the request's id and the text
  \<^verbatim>\<open>Unknown message type: \<close> followed by the kind; the listener returns normally.
\<close>

theorem unknown_kind_error_response:
  "\<not> recognized (type m) \<Longrightarrow>
   sent (onMessage now stk (Parsed m) c) =
     sent c @ [\<lparr>type = ''error'',
                payload = JObj [(''message'', JStr (''Unknown message type: '' @ type m)),
                                (''stack'', JStr stk)],
                requestId = requestId m, timestamp = now\<rparr>]"
  by (simp add: recognized_def onMessage_def routeMessage_def dispatch_def sendError_def
      ws_send_def console_log_def)

theorem unknown_kind_error_response_witness:
  "\<not> recognized ''ping'' \<and>
   sent (onMessage 7 ''at routeMessage''
          (Parsed \<lparr>type = ''ping'', payload = JNull, requestId = ''r1'', timestamp = 3\<rparr>)
          \<lparr>sent = [], console = []\<rparr>) =
     [\<lparr>type = ''error'',
       payload = JObj [(''message'', JStr ''Unknown message type: ping''),
                       (''stack'', JStr ''at routeMessage'')],
       requestId = ''r1'', timestamp = 7\<rparr>]"
proof -
  have h: "\<not> recognized ''ping''" by (simp add: recognized_def)
  show ?thesis
    using h unknown_kind_error_response
      [of "\<lparr>type = ''ping'', payload = JNull, requestId = ''r1'', timestamp = 3\<rparr>"
          7 "''at routeMessage''" "\<lparr>sent = [], console = []\<rparr>"]
    by simp
qed

text \<open>
  C6, as the code has it. A frame that does not parse is logged and answered: the
  parse error is handed to \<^verbatim>\<open>console.error\<close>, and the server sends one frame of
  kind \<^verbatim>\<open>error\<close> with the id \<^verbatim>\<open>unknown\<close> and the text of the parse error.
\<close>

theorem unparseable_frame_answered:
  "sent (onMessage now stk (Unparseable txt) c) =
     sent c @ [\<lparr>type = ''error'',
                payload = JObj [(''message'', JStr txt), (''stack'', JStr stk)],
                requestId = ''unknown'', timestamp = now\<rparr>]
   \<and> console (onMessage now stk (Unparseable txt) c) =
     console c @ [LogError ''[Telescope Server] Error processing message:''
                    \<lparr>message = txt, stack = stk\<rparr>]"
  by (simp add: onMessage_def sendError_def ws_send_def console_error_def Let_def)

text \<open>
  C6 as stated (nothing is sent for a frame that does not parse) fails: on a fresh
  connection such a frame leaves one frame in the list of frames sent.
\<close>

theorem unparseable_frame_not_dropped:
  "sent (onMessage 0 [] (Unparseable ''Unexpected token'') \<lparr>sent = [], console = []\<rparr>) \<noteq>
   sent \<lparr>sent = [], console = []\<rparr>"
  by (simp add: onMessage_def sendError_def ws_send_def console_error_def Let_def)

text \<open>
  C10. Each of the four kinds the server routes is answered with one frame whose kind
  is \<^verbatim>\<open>component-selected\<close>, whatever the kind of the request; the id is echoed and
  only the status in the payload differs.
\<close>

theorem success_response_kind:
  "recognized (type m) \<Longrightarrow>
   sent (onMessage now stk (Parsed m) c) =
     sent c @ [\<lparr>type = ''component-selected'',
                payload = JObj [(''status'',
                  JStr (if type m = ''component-selected'' then ''acknowledged'' else ''pending''))],
                requestId = requestId m, timestamp = now\<rparr>]"
  by (auto simp add: recognized_def onMessage_def routeMessage_def dispatch_def sendResponse_def
      handleComponentSelected_def handleOpenEditor_def handleGenerateTestIds_def
      handleInsertCode_def ws_send_def console_log_def)

theorem success_response_kind_witness:
  "recognized ''open-editor'' \<and>
   sent (onMessage 9 []
          (Parsed \<lparr>type = ''open-editor'', payload = JNull, requestId = ''r2'', timestamp = 3\<rparr>)
          \<lparr>sent = [], console = []\<rparr>) =
     [\<lparr>type = ''component-selected'', payload = JObj [(''status'', JStr ''pending'')],
       requestId = ''r2'', timestamp = 9\<rparr>]"
proof -
  have h: "recognized ''open-editor''" by (simp add: recognized_def)
  show ?thesis
    using h success_response_kind
      [of "\<lparr>type = ''open-editor'', payload = JNull, requestId = ''r2'', timestamp = 3\<rparr>"
          9 "[]" "\<lparr>sent = [], console = []\<rparr>"]
    by simp
qed

section \<open>Facts about the client's operations\<close>

lemmas eval_defs = new_client_def connect_def isConnected_def onopen_def onclose_def onerror_def
  reconnect_def flushMessageQueue_def settleConnect_def send_def register_def fullMessage_def
  disconnect_def ws_close_def settle_def handleMessage_def maxReconnectAttempts_def
  reconnectDelay_def Let_def always_def reqA_def reqB_def

lemma flush_loop_takeWhile:
  "flush_loop ok k q out = (dropWhile ok q, out @ map (Pair k) (takeWhile ok q))"
  by (induction q arbitrary: out) simp_all

lemma settle_fields [simp]:
  "pendingRequests (settle f out s) = pendingRequests s"
  "requestIdOf (settle f out s) = requestIdOf s"
  "nfutures (settle f out s) = nfutures s"
  "timers (settle f out s) = timers s"
  "messageQueue (settle f out s) = messageQueue s"
  "transmitted (settle f out s) = transmitted s"
  by (simp_all add: settle_def split: option.splits)

lemma settle_settled:
  "settled (settle f out s) g = (if g = f \<and> settled s f = None then Some out else settled s g)"
  by (simp add: settle_def split: option.splits)

lemma connect_fields [simp]:
  "pendingRequests (fst (connect c s)) = pendingRequests s"
  "requestIdOf (fst (connect c s)) = requestIdOf s"
  "nfutures (fst (connect c s)) = nfutures s"
  "settled (fst (connect c s)) = settled s"
  "messageQueue (fst (connect c s)) = messageQueue s"
  "transmitted (fst (connect c s)) = transmitted s"
  "(d, RequestTimer r f) \<in> set (timers (fst (connect c s))) \<longleftrightarrow> (d, RequestTimer r f) \<in> set (timers s)"
  by (auto simp add: connect_def Let_def)

lemma settled_onopen [simp]: "settled (onopen ok k s) = settled s"
  by (simp add: onopen_def flushMessageQueue_def settleConnect_def flush_loop_takeWhile
      split: option.splits)

lemma settled_onclose [simp]: "settled (onclose s) = settled s"
  by (simp add: onclose_def reconnect_def Let_def)

lemma settled_disconnect [simp]: "settled (disconnect s) = settled s"
  by (simp add: disconnect_def ws_close_def Let_def split: option.splits ready_state.splits)

lemma requestIdOf_onopen [simp]: "requestIdOf (onopen ok k s) = requestIdOf s"
  by (simp add: onopen_def flushMessageQueue_def settleConnect_def flush_loop_takeWhile
      split: option.splits)

lemma requestIdOf_onclose [simp]: "requestIdOf (onclose s) = requestIdOf s"
  by (simp add: onclose_def reconnect_def Let_def)

lemma requestIdOf_disconnect [simp]: "requestIdOf (disconnect s) = requestIdOf s"
  by (simp add: disconnect_def ws_close_def Let_def split: option.splits ready_state.splits)

lemma requestIdOf_handleMessage [simp]: "requestIdOf (handleMessage fr s) = requestIdOf s"
  by (simp add: handleMessage_def Let_def split: frame.splits option.splits)

lemma requestIdOf_fire [simp]: "requestIdOf (fire c t s) = requestIdOf s"
  by (cases t) (simp_all add: settleConnect_def split: option.splits)

subsection \<open>The bookkeeping invariant holds in every state a client can reach\<close>

lemma inv_new_client: "client_inv new_client"
  by (simp add: client_inv_def new_client_def)

lemma inv_connect: "client_inv s \<Longrightarrow> client_inv (fst (connect c s))"
  by (simp add: client_inv_def)

lemma inv_send: "client_inv s \<Longrightarrow> client_inv (fst (send rid now c ok req s))"
  apply (simp add: send_def Let_def register_def split: option.splits)
  apply (auto simp add: client_inv_def settle_settled)
  done

lemma inv_handleMessage: "client_inv s \<Longrightarrow> client_inv (handleMessage fr s)"
  by (auto simp add: handleMessage_def client_inv_def settle_settled Let_def
      split: frame.splits option.splits if_splits)

lemma inv_disconnect: "client_inv s \<Longrightarrow> client_inv (disconnect s)"
  by (auto simp add: disconnect_def ws_close_def client_inv_def Let_def
      split: option.splits ready_state.splits)

lemma inv_onopen: "client_inv s \<Longrightarrow> client_inv (onopen ok k s)"
  by (auto simp add: onopen_def flushMessageQueue_def settleConnect_def client_inv_def
      flush_loop_takeWhile split: option.splits)

lemma inv_onclose: "client_inv s \<Longrightarrow> client_inv (onclose s)"
  by (auto simp add: onclose_def reconnect_def client_inv_def Let_def)

lemma inv_fire:
  "client_inv s \<Longrightarrow> (\<And>r f. t = RequestTimer r f \<Longrightarrow> f < nfutures s)
   \<Longrightarrow> client_inv (fire c t s)"
  by (cases t)
     (auto simp add: client_inv_def settleConnect_def settle_settled split: option.splits)

lemma timer_future_created:
  "client_inv s \<Longrightarrow> (d, RequestTimer r f) \<in> set (timers s) \<Longrightarrow> f < nfutures s"
  unfolding client_inv_def by (metis not_le option.distinct(1))

lemma inv_remove_timer:
  "client_inv s \<Longrightarrow> client_inv (s\<lparr>timers := remove1 x (timers s)\<rparr>)"
  unfolding client_inv_def by (simp, meson notin_set_remove1)

lemma inv_readyState:
  "client_inv s \<Longrightarrow> client_inv (s\<lparr>readyState := rs\<rparr>)"
  by (simp add: client_inv_def)

lemma inv_step: "client_inv s \<Longrightarrow> client_inv (step e s)"
proof (cases e)
  case (TimerFires d t c)
  assume i: "client_inv s"
  show ?thesis
  proof (cases "(d, t) \<in> set (timers s)")
    case True
    have "client_inv (fire c t (s\<lparr>timers := remove1 (d, t) (timers s)\<rparr>))"
    proof (rule inv_fire)
      show "client_inv (s\<lparr>timers := remove1 (d, t) (timers s)\<rparr>)"
        using i by (rule inv_remove_timer)
    next
      fix r f assume "t = RequestTimer r f"
      with True i show "f < nfutures (s\<lparr>timers := remove1 (d, t) (timers s)\<rparr>)"
        by (simp add: timer_future_created)
    qed
    with True TimerFires show ?thesis by simp
  next
    case False
    with i TimerFires show ?thesis by simp
  qed
qed (simp_all add: inv_connect inv_send inv_handleMessage inv_disconnect inv_onopen inv_onclose
      inv_readyState, simp_all add: on_def off_def onerror_def client_inv_def)

lemma inv_run: "client_inv s \<Longrightarrow> client_inv (run es s)"
  by (induction es arbitrary: s) (simp_all add: inv_step)

subsection \<open>How an event can settle a pending promise\<close>

lemma settled_send:
  "settled (fst (send rid now c ok req s)) g = Some out \<Longrightarrow> settled s g = None \<Longrightarrow>
   out = Rejected SendFailed"
  by (auto simp add: send_def Let_def register_def settle_settled split: option.splits if_splits)

lemma settled_fire:
  "settled (fire c t s) g = Some out \<Longrightarrow> settled s g = None \<Longrightarrow> out = Rejected RequestTimeout"
  by (cases t) (auto simp add: settleConnect_def settle_settled split: option.splits if_splits)

lemma settled_handleMessage:
  "client_inv s \<Longrightarrow> settled (handleMessage fr s) g = Some out \<Longrightarrow> settled s g = None \<Longrightarrow>
   \<exists>m. fr = Parsed m \<and> requestIdOf s g = Some (requestId m) \<and> answers m out"
proof (cases fr)
  case (Unparseable u)
  assume "settled (handleMessage fr s) g = Some out" "settled s g = None"
  with Unparseable show ?thesis by (simp add: handleMessage_def)
next
  case (Parsed m)
  assume "client_inv s" "settled (handleMessage fr s) g = Some out" "settled s g = None"
  with Parsed have "requestIdOf s g = Some (requestId m) \<and> answers m out"
    by (auto simp add: handleMessage_def client_inv_def answers_def settle_settled Let_def
        split: option.splits if_splits)
  with Parsed show ?thesis by simp
qed

lemma step_settles:
  assumes "client_inv s" "settled s g = None" "settled (step e s) g = Some out" "from_response out"
  shows "\<exists>k m. e = SocketMessage k (Parsed m) \<and> requestIdOf s g = Some (requestId m) \<and> answers m out"
proof (cases e)
  case (Send rid now c ok req)
  with assms settled_send [of rid now c ok req s g out] show ?thesis by auto
next
  case (SocketMessage k fr)
  with assms settled_handleMessage [of s fr g out] show ?thesis
    by (auto split: if_splits)
next
  case (TimerFires d t c)
  with assms settled_fire [of c t "s\<lparr>timers := remove1 (d, t) (timers s)\<rparr>" g out] show ?thesis
    by (auto split: if_splits)
qed (use assms in \<open>auto simp add: on_def off_def onerror_def split: if_splits\<close>)

lemma settled_step_mono: "settled s g = Some out \<Longrightarrow> settled (step e s) g = Some out"
proof (cases e)
  case (Send rid now c ok req)
  assume "settled s g = Some out"
  with Send show ?thesis
    by (auto simp add: send_def Let_def register_def settle_settled split: option.splits)
next
  case (SocketMessage k fr)
  assume "settled s g = Some out"
  with SocketMessage show ?thesis
    by (auto simp add: handleMessage_def Let_def settle_settled split: frame.splits option.splits)
next
  case (TimerFires d t c)
  assume "settled s g = Some out"
  with TimerFires show ?thesis
    by (cases t) (auto simp add: settleConnect_def settle_settled split: option.splits)
qed (auto simp add: on_def off_def onerror_def)

lemma settled_run_mono: "settled s g = Some out \<Longrightarrow> settled (run es s) g = Some out"
  by (induction es arbitrary: s) (simp_all add: settled_step_mono)

lemma requestIdOf_step_mono:
  "client_inv s \<Longrightarrow> requestIdOf s g = Some r \<Longrightarrow> requestIdOf (step e s) g = Some r"
proof (cases e)
  case (Send rid now c ok req)
  assume "client_inv s" "requestIdOf s g = Some r"
  with Send show ?thesis
    by (auto simp add: send_def Let_def register_def client_inv_def split: option.splits)
qed (auto simp add: on_def off_def onerror_def)

lemma requestIdOf_run_mono:
  "client_inv s \<Longrightarrow> requestIdOf s g = Some r \<Longrightarrow> requestIdOf (run es s) g = Some r"
  by (induction es arbitrary: s) (simp_all add: requestIdOf_step_mono inv_step)

subsection \<open>A waiting request keeps waiting while nothing concerns its id\<close>

lemma quiet_step:
  assumes i: "client_inv s" and q: "quiet rid e"
    and p: "pendingRequests s rid \<noteq> None" and u: "settled s f = None"
    and t: "(10000, RequestTimer rid f) \<in> set (timers s)"
  shows "pendingRequests (step e s) rid \<noteq> None \<and> settled (step e s) f = None
         \<and> (10000, RequestTimer rid f) \<in> set (timers (step e s))"
proof -
  from i t have rf: "requestIdOf s f = Some rid" unfolding client_inv_def by blast
  with i have lt: "f < nfutures s" unfolding client_inv_def by (metis not_le option.distinct(1))
  show ?thesis
  proof (cases e)
    case (Connect c)
    with p u t show ?thesis by simp
  next
    case (Send r now c ok req)
    with p u t lt show ?thesis
      by (auto simp add: send_def Let_def register_def settle_settled split: option.splits)
  next
    case (On a h)
    with p u t show ?thesis by (simp add: on_def)
  next
    case (Off a)
    with p u t show ?thesis by (simp add: off_def)
  next
    case Disconnect
    with q show ?thesis by simp
  next
    case (SocketOpen k ok)
    with p u t show ?thesis
      by (simp add: onopen_def flushMessageQueue_def settleConnect_def flush_loop_takeWhile
          split: option.splits)
  next
    case (SocketMessage k fr)
    show ?thesis
    proof (cases fr)
      case (Unparseable x)
      with SocketMessage p u t show ?thesis by (simp add: handleMessage_def)
    next
      case (Parsed m)
      with SocketMessage q have ne: "requestId m \<noteq> rid" by simp
      have "\<And>g. pendingRequests s (requestId m) = Some g \<Longrightarrow> g \<noteq> f"
        using i rf ne by (auto simp add: client_inv_def)
      with SocketMessage Parsed ne p u t show ?thesis
        by (auto simp add: handleMessage_def Let_def settle_settled split: option.splits)
    qed
  next
    case (SocketError k)
    with p u t show ?thesis by (simp add: onerror_def)
  next
    case (SocketClose k)
    with p u t show ?thesis by (simp add: onclose_def reconnect_def Let_def)
  next
    case (TimerFires d tm c)
    show ?thesis
    proof (cases tm)
      case (ConnectTimer k)
      with TimerFires p u t show ?thesis
        by (auto simp add: settleConnect_def split: option.splits)
    next
      case (RequestTimer r g)
      with TimerFires q have ne: "r \<noteq> rid" by simp
      have "(d, tm) \<in> set (timers s) \<Longrightarrow> g \<noteq> f"
        using i rf ne RequestTimer by (auto simp add: client_inv_def)
      with TimerFires RequestTimer ne p u t show ?thesis
        by (auto simp add: settle_settled split: option.splits)
    next
      case ReconnectTimer
      with TimerFires p u t show ?thesis by auto
    qed
  qed
qed

lemma quiet_run:
  "client_inv s \<Longrightarrow> \<forall>e \<in> set es. quiet rid e \<Longrightarrow> pendingRequests s rid \<noteq> None
   \<Longrightarrow> settled s f = None \<Longrightarrow> (10000, RequestTimer rid f) \<in> set (timers s)
   \<Longrightarrow> pendingRequests (run es s) rid \<noteq> None \<and> settled (run es s) f = None
         \<and> (10000, RequestTimer rid f) \<in> set (timers (run es s))"
proof (induction es arbitrary: s)
  case Nil
  then show ?case by simp
next
  case (Cons e es)
  from Cons.prems have "pendingRequests (step e s) rid \<noteq> None \<and> settled (step e s) f = None
         \<and> (10000, RequestTimer rid f) \<in> set (timers (step e s))"
    using quiet_step [of s rid e f] by simp
  with Cons.prems Cons.IH [of "step e s"] show ?case by (simp add: inv_step)
qed

lemma send_registers:
  assumes "client_inv s" "\<not> isConnected s \<or> ok (fullMessage req rid now)"
    "send rid now c ok req s = (s1, f)"
  shows "pendingRequests s1 rid = Some f \<and> settled s1 f = None
         \<and> (10000, RequestTimer rid f) \<in> set (timers s1)"
  using assms
  by (auto simp add: send_def Let_def register_def isConnected_def client_inv_def
      split: option.splits if_splits)

subsection \<open>The close handler\<close>

lemma onclose_below_cap:
  "reconnectAttempts s < 5 \<Longrightarrow>
   onclose s = s\<lparr>ws := None, reconnectAttempts := Suc (reconnectAttempts s), isConnecting := False,
                   timers := timers s @ [(1000 * 2 ^ reconnectAttempts s, ReconnectTimer)]\<rparr>"
  by (simp add: onclose_def reconnect_def maxReconnectAttempts_def reconnectDelay_def)

lemma onclose_at_cap:
  "5 \<le> reconnectAttempts s \<Longrightarrow> onclose s = s\<lparr>ws := None, isConnecting := False\<rparr>"
  by (simp add: onclose_def reconnect_def maxReconnectAttempts_def)

lemma connected_client_fields:
  "ws connected_client = Some 0" "readyState connected_client 0 = Some OPEN"
  "reconnectAttempts connected_client = 0" "timers connected_client = [(5000, ConnectTimer 0)]"
  "nfutures connected_client = 0" "pendingRequests connected_client = Map.empty"
  "settled connected_client = Map.empty" "requestIdOf connected_client = Map.empty"
  "transmitted connected_client = []" "messageQueue connected_client = []"
  by (simp_all add: connected_client_def eval_defs)

section \<open>Correlation of responses\<close>

text \<open>
  C1. In every run of a client, a promise returned by \<^verbatim>\<open>send()\<close> that ends up resolved
  with a payload, or rejected with a server error, got that outcome from a response in
  the run whose \<^verbatim>\<open>requestId\<close> is the id generated for that very request: the outcome
  is the response's payload, or the error derived from it when its kind is
  \<^verbatim>\<open>error\<close>. This holds for every promise, so also for several requests in flight at
  once and for responses that arrive in any order.
\<close>

theorem response_correlation:
  "client_inv s \<Longrightarrow> settled s f = None \<Longrightarrow> settled (run es s) f = Some out \<Longrightarrow> from_response out
   \<Longrightarrow> \<exists>k m. SocketMessage k (Parsed m) \<in> set es
         \<and> requestIdOf (run es s) f = Some (requestId m) \<and> answers m out"
proof (induction es arbitrary: s)
  case Nil
  then show ?case by simp
next
  case (Cons e es)
  show ?case
  proof (cases "settled (step e s) f")
    case None
    have "\<exists>k m. SocketMessage k (Parsed m) \<in> set es
         \<and> requestIdOf (run es (step e s)) f = Some (requestId m) \<and> answers m out"
      using Cons.IH [of "step e s"] Cons.prems None by (simp add: inv_step)
    then show ?thesis by auto
  next
    case (Some o1)
    with Cons.prems have "out = o1"
      using settled_run_mono [of "step e s" f o1 es] by simp
    with Some Cons.prems obtain k m where
      e: "e = SocketMessage k (Parsed m)" and r: "requestIdOf s f = Some (requestId m)"
      and a: "answers m out"
      using step_settles [of s f e out] by auto
    have "requestIdOf (run (e # es) s) f = Some (requestId m)"
      using requestIdOf_run_mono [OF Cons.prems(1) r, of "e # es"] .
    with e a show ?thesis by auto
  qed
qed

theorem response_correlation_witness:
  "client_inv new_client \<and> settled new_client 0 = None
   \<and> settled (run two_in_flight new_client) 0 = Some (Resolved (JStr ''one''))
   \<and> settled (run two_in_flight new_client) 1 = Some (Resolved (JStr ''two''))
   \<and> from_response (Resolved (JStr ''one''))
   \<and> (\<exists>k m. SocketMessage k (Parsed m) \<in> set two_in_flight
        \<and> requestIdOf (run two_in_flight new_client) 0 = Some (requestId m)
        \<and> answers m (Resolved (JStr ''one'')))"
proof -
  have u: "settled new_client 0 = None" by (simp add: new_client_def)
  have r: "settled (run two_in_flight new_client) 0 = Some (Resolved (JStr ''one''))"
    and r': "settled (run two_in_flight new_client) 1 = Some (Resolved (JStr ''two''))"
    by (simp_all add: two_in_flight_def eval_defs)
  have fr: "from_response (Resolved (JStr ''one''))" by simp
  from response_correlation [OF inv_new_client u r fr] inv_new_client u r r' fr
  show ?thesis by blast
qed

section \<open>The outbound queue\<close>

text \<open>
  C2, as the code has it. A request sent while the client is not connected is appended
  to the queue and nothing is transmitted. When the socket the client holds opens, the
  queue is sent from its head, in order, up to the first message whose sending throws;
  that message and the ones behind it stay queued in their order. When no sending
  throws, the whole queue is transmitted in enqueue order and the queue is empty. A
  request sent on the open socket is transmitted after everything transmitted before.
\<close>

theorem queue_flush_order:
  "(\<not> isConnected s \<longrightarrow>
      messageQueue (fst (send rid now c ok req s)) = messageQueue s @ [fullMessage req rid now]
      \<and> transmitted (fst (send rid now c ok req s)) = transmitted s)
   \<and> (ws s = Some k \<and> readyState s k = Some CONNECTING \<longrightarrow>
      transmitted (step (SocketOpen k ok) s) =
        transmitted s @ map (Pair k) (takeWhile ok (messageQueue s))
      \<and> messageQueue (step (SocketOpen k ok) s) = dropWhile ok (messageQueue s)
      \<and> isConnected (step (SocketOpen k ok) s))
   \<and> (ws s = Some k \<and> readyState s k = Some CONNECTING \<and> (\<forall>m \<in> set (messageQueue s). ok m) \<longrightarrow>
      transmitted (step (SocketOpen k ok) s) = transmitted s @ map (Pair k) (messageQueue s)
      \<and> messageQueue (step (SocketOpen k ok) s) = [])
   \<and> (ws s = Some k \<and> readyState s k = Some OPEN \<and> ok (fullMessage req rid now) \<longrightarrow>
      transmitted (fst (send rid now c ok req s)) = transmitted s @ [(k, fullMessage req rid now)]
      \<and> messageQueue (fst (send rid now c ok req s)) = messageQueue s)"
proof (intro conjI impI)
  assume "\<not> isConnected s"
  then show "messageQueue (fst (send rid now c ok req s)) = messageQueue s @ [fullMessage req rid now]"
    and "transmitted (fst (send rid now c ok req s)) = transmitted s"
    by (auto simp add: send_def register_def isConnected_def Let_def split: option.splits)
next
  assume a: "ws s = Some k \<and> readyState s k = Some CONNECTING"
  then show "transmitted (step (SocketOpen k ok) s) =
        transmitted s @ map (Pair k) (takeWhile ok (messageQueue s))"
    and "messageQueue (step (SocketOpen k ok) s) = dropWhile ok (messageQueue s)"
    and "isConnected (step (SocketOpen k ok) s)"
    by (simp_all add: onopen_def flushMessageQueue_def settleConnect_def flush_loop_takeWhile
        isConnected_def split: option.splits)
next
  assume a: "ws s = Some k \<and> readyState s k = Some CONNECTING \<and> (\<forall>m \<in> set (messageQueue s). ok m)"
  then have tw: "takeWhile ok (messageQueue s) = messageQueue s"
    and dw: "dropWhile ok (messageQueue s) = []"
    by simp_all
  from a show "transmitted (step (SocketOpen k ok) s) = transmitted s @ map (Pair k) (messageQueue s)"
    by (simp add: onopen_def flushMessageQueue_def settleConnect_def flush_loop_takeWhile tw
        split: option.splits)
  from a show "messageQueue (step (SocketOpen k ok) s) = []"
    by (simp add: onopen_def flushMessageQueue_def settleConnect_def flush_loop_takeWhile dw
        split: option.splits)
next
  assume a: "ws s = Some k \<and> readyState s k = Some OPEN \<and> ok (fullMessage req rid now)"
  then show "transmitted (fst (send rid now c ok req s)) = transmitted s @ [(k, fullMessage req rid now)]"
    and "messageQueue (fst (send rid now c ok req s)) = messageQueue s"
    by (simp_all add: send_def register_def Let_def)
qed

theorem queue_flush_order_witness:
  "\<not> isConnected two_queued \<and> ws two_queued = Some 0 \<and> readyState two_queued 0 = Some CONNECTING
   \<and> messageQueue two_queued = [fullMessage reqA ''r1'' 1, fullMessage reqB ''r2'' 2]
   \<and> transmitted (step (SocketOpen 0 always) two_queued) =
       [(0, fullMessage reqA ''r1'' 1), (0, fullMessage reqB ''r2'' 2)]
   \<and> messageQueue (step (SocketOpen 0 always) two_queued) = []
   \<and> messageQueue (fst (send ''r3'' 3 True always reqA two_queued)) =
       [fullMessage reqA ''r1'' 1, fullMessage reqB ''r2'' 2, fullMessage reqA ''r3'' 3]"
proof -
  have q: "messageQueue two_queued = [fullMessage reqA ''r1'' 1, fullMessage reqB ''r2'' 2]"
    and w: "ws two_queued = Some 0" and r: "readyState two_queued 0 = Some CONNECTING"
    and t: "transmitted two_queued = []"
    by (simp_all add: two_queued_def eval_defs)
  have n: "\<not> isConnected two_queued" using w r by (simp add: isConnected_def)
  have al: "\<forall>m \<in> set (messageQueue two_queued). always m" by (simp add: always_def)
  note T = queue_flush_order [of two_queued "''r3''" 3 True always reqA 0]
  from T n have c1: "messageQueue (fst (send ''r3'' 3 True always reqA two_queued)) =
      messageQueue two_queued @ [fullMessage reqA ''r3'' 3]"
    by blast
  from T w r al have c2: "transmitted (step (SocketOpen 0 always) two_queued) =
      transmitted two_queued @ map (Pair 0) (messageQueue two_queued)"
    and c3: "messageQueue (step (SocketOpen 0 always) two_queued) = []"
    by blast+
  show ?thesis
    unfolding c1 c2 c3 q t w r using n by simp
qed

text \<open>
  C2 as stated fails. Request \<open>r1\<close> is queued while the client is not connected; the
  socket opens, but sending \<open>r1\<close> throws and it is put back; request \<open>r2\<close>, issued on
  the open socket, is transmitted while \<open>r1\<close> is still in the queue.
\<close>

theorem queued_request_overtaken:
  "messageQueue (run stuck_queue new_client) = [fullMessage reqA ''r1'' 1]
   \<and> transmitted (run stuck_queue new_client) = [(0, fullMessage reqB ''r2'' 2)]"
  by (simp add: stuck_queue_def eval_defs)

section \<open>Reconnection\<close>

subsection \<open>The counter is 0 while the client is connected\<close>




subsection \<open>One failed attempt\<close>








section \<open>Disconnecting\<close>

text \<open>
  C4, as the code has it. \<^verbatim>\<open>disconnect()\<close> closes the socket the client holds (an
  open or connecting socket starts closing) and forgets it, empties the queue, empties
  the table of pending requests and sets the reconnection counter to 0. It settles no
  promise: every promise is exactly as it was, and since the table is empty the request
  timers that run out afterwards reject nothing either.
\<close>

theorem disconnect_resets:
  "ws (disconnect s) = None \<and> \<not> isConnected (disconnect s)
   \<and> messageQueue (disconnect s) = []
   \<and> pendingRequests (disconnect s) = Map.empty
   \<and> reconnectAttempts (disconnect s) = 0
   \<and> settled (disconnect s) = settled s
   \<and> settled (fire c (RequestTimer r f) (disconnect s)) = settled s
   \<and> (\<forall>k. ws s = Some k \<and> readyState s k \<in> {Some CONNECTING, Some OPEN} \<longrightarrow>
         readyState (disconnect s) k = Some CLOSING)"
  by (auto simp add: disconnect_def ws_close_def isConnected_def Let_def
      split: option.splits ready_state.splits)

theorem disconnect_resets_witness:
  "ws in_flight = Some 0 \<and> readyState in_flight 0 = Some OPEN
   \<and> pendingRequests in_flight ''r1'' = Some 0
   \<and> ws (disconnect in_flight) = None
   \<and> messageQueue (disconnect in_flight) = []
   \<and> pendingRequests (disconnect in_flight) = Map.empty
   \<and> reconnectAttempts (disconnect in_flight) = 0
   \<and> settled (disconnect in_flight) = settled in_flight
   \<and> readyState (disconnect in_flight) 0 = Some CLOSING"
proof -
  have a: "ws in_flight = Some 0" "readyState in_flight 0 = Some OPEN"
    "pendingRequests in_flight ''r1'' = Some 0"
    by (simp_all add: in_flight_def connected_client_fields send_def register_def Let_def
        always_def)
  from disconnect_resets [of in_flight True "''r1''" 0] a
  have "readyState (disconnect in_flight) 0 = Some CLOSING" by simp
  with disconnect_resets [of in_flight True "''r1''" 0] a show ?thesis by blast
qed

text \<open>
  C4 as stated fails: the promise of a request in flight is not rejected by
  \<^verbatim>\<open>disconnect()\<close>. It is still pending afterwards, and still pending after its own
  ten second timer has run out.
\<close>

theorem disconnect_leaves_promise_pending:
  "pendingRequests in_flight ''r1'' = Some 0
   \<and> settled in_flight 0 = None
   \<and> settled (disconnect in_flight) 0 = None
   \<and> settled (step (TimerFires 10000 (RequestTimer ''r1'' 0) True) (disconnect in_flight)) 0 = None"
  by (simp add: in_flight_def connected_client_fields send_def register_def disconnect_def
      ws_close_def Let_def always_def)

text \<open>
  The handlers of a socket stay installed when \<^verbatim>\<open>disconnect()\<close> closes it: the close
  event that follows runs the close handler, which schedules a reconnection after 1000
  milliseconds.
\<close>

lemma disconnect_close_event_schedules_reconnect:
  "(1000, ReconnectTimer) \<in> set (timers (step (SocketClose 0) (disconnect in_flight)))
   \<and> (1000, ReconnectTimer) \<notin> set (timers (disconnect in_flight))"
  by (simp add: in_flight_def connected_client_fields send_def register_def disconnect_def
      ws_close_def onclose_def reconnect_def maxReconnectAttempts_def reconnectDelay_def
      Let_def always_def)

section \<open>Request timeout\<close>

text \<open>
  C7, as the code has it. A request is sent from a state the client can be in, and its
  message is queued or handed to the socket. Then events follow among which there is
  no response with its id, no \<^verbatim>\<open>disconnect()\<close> and no request timer of another
  request that drew the same id. The request's own timer, set to 10000 milliseconds, is
  still there, the table still has an entry for the id and the promise is pending. When
  that timer runs out, the entry is removed from the table and the promise is rejected
  with the request timeout. A response that arrives after that with the same id changes
  no promise and no entry; the handler returns normally.
\<close>

theorem request_timeout:
  assumes "client_inv s" "\<not> isConnected s \<or> ok (fullMessage req rid now)"
    "send rid now c ok req s = (s1, f)" "\<forall>e \<in> set es. quiet rid e"
    "s2 = run es s1" "s3 = step (TimerFires 10000 (RequestTimer rid f) c') s2"
  shows "pendingRequests s1 rid = Some f
         \<and> pendingRequests s2 rid \<noteq> None \<and> settled s2 f = None
         \<and> (10000, RequestTimer rid f) \<in> set (timers s2)
         \<and> pendingRequests s3 rid = None \<and> settled s3 f = Some (Rejected RequestTimeout)
         \<and> (\<forall>k m. requestId m = rid \<longrightarrow>
               settled (step (SocketMessage k (Parsed m)) s3) = settled s3
               \<and> pendingRequests (step (SocketMessage k (Parsed m)) s3) = pendingRequests s3)"
proof -
  have i1: "client_inv s1"
    using inv_send [OF assms(1), of rid now c ok req] assms(3) by simp
  note r = send_registers [OF assms(1,2,3)]
  have a: "pendingRequests s2 rid \<noteq> None \<and> settled s2 f = None
         \<and> (10000, RequestTimer rid f) \<in> set (timers s2)"
    using quiet_run [OF i1 assms(4), of f] r assms(5) by simp
  then have b: "pendingRequests s3 rid = None \<and> settled s3 f = Some (Rejected RequestTimeout)"
    using assms(6) by (auto simp add: settle_settled)
  then have "\<forall>k m. requestId m = rid \<longrightarrow>
               settled (step (SocketMessage k (Parsed m)) s3) = settled s3
               \<and> pendingRequests (step (SocketMessage k (Parsed m)) s3) = pendingRequests s3"
    by (auto simp add: handleMessage_def split: option.splits)
  with a b r show ?thesis by simp
qed

theorem request_timeout_witness:
  "client_inv connected_client
   \<and> always (fullMessage reqA ''r1'' 5)
   \<and> send ''r1'' 5 True always reqA connected_client = (in_flight, 0)
   \<and> quiet ''r1'' (SocketMessage 0 (Parsed late_other))
   \<and> quiet ''r1'' (Send ''r1'' 6 True always reqB)
   \<and> pendingRequests in_flight ''r1'' = Some 0
   \<and> pendingRequests
        (step (TimerFires 10000 (RequestTimer ''r1'' 0) True)
           (run [SocketMessage 0 (Parsed late_other), Send ''r1'' 6 True always reqB] in_flight))
        ''r1'' = None
   \<and> settled
        (step (TimerFires 10000 (RequestTimer ''r1'' 0) True)
           (run [SocketMessage 0 (Parsed late_other), Send ''r1'' 6 True always reqB] in_flight))
        0 = Some (Rejected RequestTimeout)
   \<and> settled
        (step (SocketMessage 0 (Parsed late_own))
           (step (TimerFires 10000 (RequestTimer ''r1'' 0) True)
              (run [SocketMessage 0 (Parsed late_other), Send ''r1'' 6 True always reqB]
                 in_flight))) 0
       = Some (Rejected RequestTimeout)"
proof -
  let ?es = "[SocketMessage 0 (Parsed late_other), Send ''r1'' 6 True always reqB]"
  let ?s3 = "step (TimerFires 10000 (RequestTimer ''r1'' 0) True) (run ?es in_flight)"
  have i: "client_inv connected_client"
    unfolding connected_client_def by (rule inv_run [OF inv_new_client])
  have al: "always (fullMessage reqA ''r1'' 5)"
    by (simp add: always_def)
  then have ok: "\<not> isConnected connected_client \<or> always (fullMessage reqA ''r1'' 5)"
    by simp
  have sn: "send ''r1'' 5 True always reqA connected_client = (in_flight, 0)"
    by (simp add: in_flight_def send_def connected_client_fields Let_def always_def)
  have q1: "quiet ''r1'' (SocketMessage 0 (Parsed late_other))"
    by (simp add: late_other_def)
  have q2: "quiet ''r1'' (Send ''r1'' 6 True always reqB)"
    by simp
  from q1 q2 have q: "\<forall>e \<in> set ?es. quiet ''r1'' e" by simp
  have ro: "requestId late_own = ''r1''" by (simp add: late_own_def)
  note T = request_timeout [OF i ok sn q refl refl, of True]
  from T have t1: "pendingRequests in_flight ''r1'' = Some 0"
    and t2: "pendingRequests ?s3 ''r1'' = None"
    and t3: "settled ?s3 0 = Some (Rejected RequestTimeout)"
    by blast+
  from T ro have "settled (step (SocketMessage 0 (Parsed late_own)) ?s3) = settled ?s3"
    by blast
  with t3 have t4: "settled (step (SocketMessage 0 (Parsed late_own)) ?s3) 0 =
      Some (Rejected RequestTimeout)"
    by (simp only:)
  from i al sn q1 q2 t1 t2 t3 t4 show ?thesis by blast
qed

text \<open>
  C7 as stated fails. A request is sent and its timer is set; \<^verbatim>\<open>disconnect()\<close> empties
  the table; no response ever arrives. When the timer runs out it finds no entry and
  rejects nothing: the promise is still pending after the timer is gone.
\<close>

theorem timeout_after_disconnect_rejects_nothing:
  "(10000, RequestTimer ''r1'' 0) \<in> set (timers (run (butlast abandoned) new_client))
   \<and> (10000, RequestTimer ''r1'' 0) \<notin> set (timers (run abandoned new_client))
   \<and> requestIdOf (run abandoned new_client) 0 = Some ''r1''
   \<and> settled (run abandoned new_client) 0 = None"
  by (simp add: abandoned_def eval_defs)

section \<open>Connecting twice\<close>




section \<open>Starting the server\<close>

text \<open>
  C9, as the code has it. \<^verbatim>\<open>startCommand\<close> fails only when loading the
  configuration, starting the listener or writing the pid file fails. Otherwise the
  server listens inside the calling process, no child process is launched, and the pid
  file holds the id of the calling process, whatever it held before; the processes that
  are alive play no part.
\<close>

theorem startCommand_in_process:
  "startCommand pid load_ok listen_ok write_ok sys =
     (if \<not> load_ok then Inl ConfigError
      else if \<not> listen_ok then Inl ServerStartError
      else if \<not> write_ok then Inl PidWriteError
      else Inr (sys\<lparr>serverProcess := Some pid, pidFile := Some pid\<rparr>))
   \<and> (case startCommand pid load_ok listen_ok write_ok sys of
         Inl err \<Rightarrow> True
       | Inr sys' \<Rightarrow> spawned sys' = spawned sys \<and> serverProcess sys' = Some pid
                    \<and> pidFile sys' = Some pid)"
  by (simp add: startCommand_def)

text \<open>
  C9 as stated fails: with a pid file that names the live process 42, the command run
  by process 7 does not fail; it overwrites the file with 7, it launches no process,
  and the server runs in process 7 itself.
\<close>

theorem startCommand_overwrites_live_record:
  "pidFile live_record = Some 42 \<and> 42 \<in> alive live_record
   \<and> startCommand 7 True True True live_record
       = Inr \<lparr>pidFile = Some 7, alive = {42}, spawned = [], serverProcess = Some 7\<rparr>"
  by (simp add: startCommand_def live_record_def)

end
